theory Spec2Isabelle
  imports Main "HOL-Library.Word"
begin

section \<open>The clipboard bitmap reconstructor of Blender\_IMGFromClipboard\<close>

text \<open>
  The development embeds \<^verbatim>\<open>dib_to_bmp_file_bytes\<close> of
  \<^verbatim>\<open>Blender_IMGFromClipboard.py\<close> (lines 102 to 131) together with the three
  calls into Python's \<^verbatim>\<open>struct\<close> module it relies on. A \<^verbatim>\<open>bytes\<close> object is a
  list of 8-bit words, Python's unbounded integers are \<open>int\<close>, and every
  \<^verbatim>\<open>raise\<close> is a value on the left of a sum.
\<close>

subsection \<open>Data\<close>

type_synonym byte = "8 word"
type_synonym bytes = "byte list"

text \<open>
  The exceptions the function can end with. \<open>ValueError\<close> carries the message of the
  \<^verbatim>\<open>raise ValueError(...)\<close> statement. Python has one class \<^verbatim>\<open>struct.error\<close>; the
  two constructors record whether it came from \<^verbatim>\<open>struct.unpack_from\<close> (buffer too
  small for the read) or from \<^verbatim>\<open>struct.pack\<close> (argument out of the format's range).
\<close>

datatype error = ValueError string | StructError_unpack | StructError_pack

text \<open>
  An exception raised by a call leaves the calling function at once; otherwise the
  call's value is handed on.
\<close>

definition bind_result :: "error + 'a \<Rightarrow> ('a \<Rightarrow> error + 'b) \<Rightarrow> error + 'b" where
  "bind_result r f = (case r of Inl e \<Rightarrow> Inl e | Inr x \<Rightarrow> f x)"

subsection \<open>The \<^verbatim>\<open>struct\<close> module, little-endian standard sizes\<close>

text \<open>The unsigned value of a byte string, least significant byte first.\<close>

fun le_uint :: "bytes \<Rightarrow> int" where
  "le_uint [] = 0"
| "le_uint (b # bs) = uint b + 256 * le_uint bs"

text \<open>The \<open>n\<close> low-order bytes of an integer, least significant byte first.\<close>

fun le_bytes :: "nat \<Rightarrow> int \<Rightarrow> bytes" where
  "le_bytes 0 v = []"
| "le_bytes (Suc n) v = word_of_int v # le_bytes n (v div 256)"

text \<open>The \<open>width\<close> bytes of \<open>buf\<close> that start at \<open>off\<close>, read little-endian.\<close>

definition le_field :: "bytes \<Rightarrow> nat \<Rightarrow> nat \<Rightarrow> int" where
  "le_field buf off width = le_uint (take width (drop off buf))"

text \<open>
  \<^verbatim>\<open>struct.unpack_from(fmt, buffer, offset)[0]\<close> for a format of one unsigned field
  of \<open>width\<close> bytes: it raises \<^verbatim>\<open>struct.error\<close> unless \<open>width\<close> bytes are available
  from \<open>offset\<close> on.
\<close>

definition unpack_from_le :: "nat \<Rightarrow> bytes \<Rightarrow> nat \<Rightarrow> error + int" where
  "unpack_from_le width buffer offset =
     (if length buffer < offset + width then Inl StructError_unpack
      else Inr (le_field buffer offset width))"

definition unpack_from_I :: "bytes \<Rightarrow> nat \<Rightarrow> error + int" where
  "unpack_from_I = unpack_from_le 4"

definition unpack_from_H :: "bytes \<Rightarrow> nat \<Rightarrow> error + int" where
  "unpack_from_H = unpack_from_le 2"

text \<open>
  \<^verbatim>\<open>struct.pack\<close> of one field. Formats \<^verbatim>\<open>I\<close> and \<^verbatim>\<open>H\<close> raise
  \<^verbatim>\<open>struct.error\<close> when the argument is outside the unsigned range of the field;
  format \<^verbatim>\<open>2s\<close> truncates or zero-pads its argument to two bytes.
\<close>

definition pack_I :: "int \<Rightarrow> error + bytes" where
  "pack_I v = (if 0 \<le> v \<and> v \<le> 4294967295 then Inr (le_bytes 4 v) else Inl StructError_pack)"

definition pack_H :: "int \<Rightarrow> error + bytes" where
  "pack_H v = (if 0 \<le> v \<and> v \<le> 65535 then Inr (le_bytes 2 v) else Inl StructError_pack)"

definition pack_2s :: "bytes \<Rightarrow> bytes" where
  "pack_2s s = take 2 (s @ [0, 0])"

text \<open>\<^verbatim>\<open>struct.pack("<2sIHHI", s, a, b, c, d)\<close>: no padding between the fields.\<close>

definition struct_pack_2sIHHI :: "bytes \<Rightarrow> int \<Rightarrow> int \<Rightarrow> int \<Rightarrow> int \<Rightarrow> error + bytes" where
  "struct_pack_2sIHHI s a b c d =
     bind_result (pack_I a) (\<lambda>pa.
     bind_result (pack_H b) (\<lambda>pb.
     bind_result (pack_H c) (\<lambda>pc.
     bind_result (pack_I d) (\<lambda>pd.
       Inr (pack_2s s @ pa @ pb @ pc @ pd)))))"

subsection \<open>The reconstructor\<close>

text \<open>Lines 117 to 120: the number of palette entries and their size in bytes.\<close>

definition palette_entries :: "int \<Rightarrow> int \<Rightarrow> int" where
  "palette_entries biBitCount biClrUsed =
     (if biBitCount \<le> 8
      then (if biClrUsed \<noteq> 0 then biClrUsed else push_bit (nat biBitCount) 1)
      else 0)"

definition palette_size :: "int \<Rightarrow> int \<Rightarrow> int" where
  "palette_size biBitCount biClrUsed = palette_entries biBitCount biClrUsed * 4"

text \<open>Lines 122 to 125: the size of the colour masks that follow a 40-byte header.\<close>

definition masks_size :: "int \<Rightarrow> int \<Rightarrow> int" where
  "masks_size biCompression biSize =
     (if biCompression = 3 \<or> biCompression = 6
      then (if biSize = 40 then 12 else 0)
      else 0)"

text \<open>Lines 128 to 131: the file header is packed and put in front of the buffer.\<close>

definition prepend_bfh :: "bytes \<Rightarrow> int \<Rightarrow> int \<Rightarrow> error + bytes" where
  "prepend_bfh dib file_size off_bits =
     bind_result (struct_pack_2sIHHI [66, 77] file_size 0 0 off_bits) (\<lambda>bfh.
       Inr (bfh @ dib))"

text \<open>The function itself; \<^verbatim>\<open>b"BM"\<close> is the byte string \<open>[66, 77]\<close>.\<close>

definition dib_to_bmp_file_bytes :: "bytes \<Rightarrow> error + bytes" where
  "dib_to_bmp_file_bytes dib =
     (if dib = [] \<or> length dib < 40
      then Inl (ValueError ''Clipboard DIB data is invalid or too small.'')
      else
        bind_result (unpack_from_I dib 0) (\<lambda>biSize.
        if biSize < 40 \<or> int (length dib) < biSize
        then Inl (ValueError ''Invalid DIB header.'')
        else
          bind_result (unpack_from_H dib 14) (\<lambda>biBitCount.
          bind_result (unpack_from_I dib 16) (\<lambda>biCompression.
          bind_result (unpack_from_I dib 32) (\<lambda>biClrUsed.
            let off_bits = 14 + biSize + palette_size biBitCount biClrUsed
                             + masks_size biCompression biSize;
                file_size = 14 + int (length dib)
            in prepend_bfh dib file_size off_bits)))))"

subsection \<open>Vocabulary of the specification\<close>

text \<open>
  A buffer is accepted when it passes both validations: at least 40 bytes, a declared
  header size (4 bytes at offset 0) of at least 40, and no fewer bytes than declared.
\<close>

definition accepted :: "bytes \<Rightarrow> bool" where
  "accepted dib \<longleftrightarrow>
     40 \<le> length dib \<and> 40 \<le> le_field dib 0 4 \<and> le_field dib 0 4 \<le> int (length dib)"

text \<open>The fields of a produced file: total size at offset 2, pixel-data offset at 10.\<close>

definition bf_size :: "bytes \<Rightarrow> int" where
  "bf_size out = le_field out 2 4"

definition bf_off_bits :: "bytes \<Rightarrow> int" where
  "bf_off_bits out = le_field out 10 4"

text \<open>
  The rules of the specification, written from its words: the palette takes four bytes
  per entry when the depth is at most 8 bits, with as many entries as the colors-used
  field says, or \<open>2 ^ depth\<close> when that field is zero; twelve bytes of masks follow a
  40-byte header whose compression code is 3 or 6; the pixel data start after the
  14-byte file header, the info header, the palette and the masks.
\<close>

definition spec_palette_size :: "int \<Rightarrow> int \<Rightarrow> int" where
  "spec_palette_size bits_per_pixel colors_used =
     (if bits_per_pixel \<le> 8
      then (if colors_used \<noteq> 0 then colors_used else 2 ^ nat bits_per_pixel) * 4
      else 0)"

definition spec_mask_size :: "int \<Rightarrow> int \<Rightarrow> int" where
  "spec_mask_size compression header_size =
     (if (compression = 3 \<or> compression = 6) \<and> header_size = 40 then 12 else 0)"

definition spec_offset :: "bytes \<Rightarrow> int" where
  "spec_offset dib =
     14 + le_field dib 0 4
        + spec_palette_size (le_field dib 14 2) (le_field dib 32 4)
        + spec_mask_size (le_field dib 16 4) (le_field dib 0 4)"

text \<open>
  The layout of the 14-byte file header: signature, total size, two reserved fields,
  pixel-data offset.
\<close>

definition bfh_bytes :: "int \<Rightarrow> int \<Rightarrow> bytes" where
  "bfh_bytes file_size off_bits =
     [66, 77] @ le_bytes 4 file_size @ [0, 0] @ [0, 0] @ le_bytes 4 off_bits"

text \<open>
  Both 32-bit fields of the file header must fit: the total size and the pixel-data
  offset are at most \<open>2 ^ 32 - 1\<close>.
\<close>

definition fits_header :: "bytes \<Rightarrow> bool" where
  "fits_header dib \<longleftrightarrow>
     14 + int (length dib) \<le> 4294967295 \<and> spec_offset dib \<le> 4294967295"

subsection \<open>Sample buffers\<close>

text \<open>
  Each sample is a 40-byte info header unless said otherwise: header size at offset 0,
  depth at 14, compression at 16, colors-used at 32, every other field zero.
\<close>

definition dib_24bit :: bytes where
  "dib_24bit =
     [40, 0, 0, 0] @ replicate 10 0 @ [24, 0] @ [0, 0, 0, 0] @ replicate 12 0
       @ [0, 0, 0, 0] @ replicate 4 0"

definition dib_8bit :: bytes where
  "dib_8bit =
     [40, 0, 0, 0] @ replicate 10 0 @ [8, 0] @ [0, 0, 0, 0] @ replicate 12 0
       @ [0, 0, 0, 0] @ replicate 4 0"

definition dib_8bit_bitfields :: bytes where
  "dib_8bit_bitfields =
     [40, 0, 0, 0] @ replicate 10 0 @ [8, 0] @ [3, 0, 0, 0] @ replicate 12 0
       @ [0, 0, 0, 0] @ replicate 4 0"

definition dib_32bit_bitfields :: bytes where
  "dib_32bit_bitfields =
     [40, 0, 0, 0] @ replicate 10 0 @ [32, 0] @ [3, 0, 0, 0] @ replicate 12 0
       @ [0, 0, 0, 0] @ replicate 4 0"

text \<open>Colors-used is \<open>1000\<close>, the bytes \<open>232, 3, 0, 0\<close>.\<close>

definition dib_1000_colours :: bytes where
  "dib_1000_colours =
     [40, 0, 0, 0] @ replicate 10 0 @ [8, 0] @ [0, 0, 0, 0] @ replicate 12 0
       @ [232, 3, 0, 0] @ replicate 4 0"

text \<open>Colors-used is \<open>2 ^ 30\<close>, the bytes \<open>0, 0, 0, 64\<close>.\<close>

definition dib_big_palette :: bytes where
  "dib_big_palette =
     [40, 0, 0, 0] @ replicate 10 0 @ [8, 0] @ [0, 0, 0, 0] @ replicate 12 0
       @ [0, 0, 0, 64] @ replicate 4 0"

text \<open>Thirty-nine bytes, and fifty bytes that declare a header of 100.\<close>

definition dib_short :: bytes where
  "dib_short = replicate 39 0"

definition dib_declared_100 :: bytes where
  "dib_declared_100 = [100, 0, 0, 0] @ replicate 46 0"

text \<open>
  A 24-bit header followed by enough bytes to make the buffer longer than \<open>2 ^ 32\<close>.
\<close>

definition dib_4gib :: bytes where
  "dib_4gib =
     [40, 0, 0, 0] @ replicate 10 0 @ [24, 0] @ replicate 24 0 @ replicate 4294967296 0"

section \<open>Properties\<close>

subsection \<open>Encoding and decoding\<close>

lemma le_bytes_length: "length (le_bytes n v) = n"
  by (induction n arbitrary: v) simp_all

lemma le_uint_le_bytes: "le_uint (le_bytes n v) = v mod 256 ^ n"
proof (induction n arbitrary: v)
  case 0
  show ?case by simp
next
  case (Suc n)
  have "uint (word_of_int v :: byte) = v mod 256"
    by (simp add: uint_word_of_int)
  moreover have "v mod (256 * 256 ^ n) = 256 * (v div 256 mod 256 ^ n) + v mod 256"
    by (rule zmod_zmult2_eq) simp
  ultimately show ?case using Suc.IH [of "v div 256"]
    by simp
qed

lemma le_uint_le_bytes_4: "0 \<le> v \<Longrightarrow> v \<le> 4294967295 \<Longrightarrow> le_uint (le_bytes 4 v) = v"
  by (simp add: le_uint_le_bytes)

lemma le_uint_nonneg: "0 \<le> le_uint bs"
  by (induction bs) simp_all

lemma le_uint_replicate_zero: "le_uint (replicate n 0) = 0"
  by (induction n) simp_all

lemma le_field_nonneg: "0 \<le> le_field buf off width"
  by (simp add: le_field_def le_uint_nonneg)

lemma palette_size_spec: "palette_size bc cu = spec_palette_size bc cu"
  by (simp add: palette_size_def palette_entries_def spec_palette_size_def push_bit_eq_mult)

lemma masks_size_spec: "masks_size cmp hs = spec_mask_size cmp hs"
  by (simp add: masks_size_def spec_mask_size_def)

lemma spec_palette_size_nonneg: "0 \<le> cu \<Longrightarrow> 0 \<le> spec_palette_size bc cu"
  by (simp add: spec_palette_size_def)

lemma spec_mask_size_nonneg: "0 \<le> spec_mask_size cmp hs"
  by (simp add: spec_mask_size_def)

lemma spec_offset_nonneg: "0 \<le> spec_offset dib"
  using le_field_nonneg [of dib 0 4] le_field_nonneg [of dib 32 4]
    spec_palette_size_nonneg [of "le_field dib 32 4" "le_field dib 14 2"]
    spec_mask_size_nonneg [of "le_field dib 16 4" "le_field dib 0 4"]
  by (simp add: spec_offset_def)

subsection \<open>The branches of the function\<close>

lemma too_small:
  "length dib < 40 \<Longrightarrow>
     dib_to_bmp_file_bytes dib = Inl (ValueError ''Clipboard DIB data is invalid or too small.'')"
  by (simp add: dib_to_bmp_file_bytes_def)

lemma bad_header:
  "40 \<le> length dib \<Longrightarrow> \<not> accepted dib \<Longrightarrow>
     dib_to_bmp_file_bytes dib = Inl (ValueError ''Invalid DIB header.'')"
  by (auto simp add: dib_to_bmp_file_bytes_def accepted_def bind_result_def
        unpack_from_I_def unpack_from_le_def)

lemma unfold_accepted:
  assumes "accepted dib"
  shows "dib_to_bmp_file_bytes dib = prepend_bfh dib (14 + int (length dib)) (spec_offset dib)"
  using assms
  by (auto simp add: dib_to_bmp_file_bytes_def accepted_def bind_result_def
        unpack_from_I_def unpack_from_H_def unpack_from_le_def Let_def
        spec_offset_def palette_size_spec masks_size_spec)

lemma unfold_accepted_code:
  assumes "accepted dib"
  shows "dib_to_bmp_file_bytes dib =
           prepend_bfh dib (14 + int (length dib))
             (14 + le_field dib 0 4
                 + palette_size (le_field dib 14 2) (le_field dib 32 4)
                 + masks_size (le_field dib 16 4) (le_field dib 0 4))"
  using assms
  by (simp add: unfold_accepted spec_offset_def palette_size_spec masks_size_spec)

subsection \<open>Packing the file header\<close>

lemma struct_pack_ok:
  "0 \<le> fs \<Longrightarrow> fs \<le> 4294967295 \<Longrightarrow> 0 \<le> ob \<Longrightarrow> ob \<le> 4294967295 \<Longrightarrow>
     struct_pack_2sIHHI [66, 77] fs 0 0 ob = Inr (bfh_bytes fs ob)"
  by (simp add: struct_pack_2sIHHI_def bind_result_def pack_I_def pack_H_def
        pack_2s_def bfh_bytes_def numeral_2_eq_2)

lemma struct_pack_fail:
  "4294967295 < fs \<or> 4294967295 < ob \<Longrightarrow>
     struct_pack_2sIHHI [66, 77] fs 0 0 ob = Inl StructError_pack"
  by (auto simp add: struct_pack_2sIHHI_def bind_result_def pack_I_def pack_H_def)

lemma bfh_bytes_length: "length (bfh_bytes fs ob) = 14"
  by (simp add: bfh_bytes_def le_bytes_length)

lemma bfh_bytes_size:
  "0 \<le> fs \<Longrightarrow> fs \<le> 4294967295 \<Longrightarrow> bf_size (bfh_bytes fs ob @ rest) = fs"
  by (simp add: bf_size_def le_field_def bfh_bytes_def le_bytes_length le_uint_le_bytes)

lemma bfh_bytes_off_bits:
  "0 \<le> ob \<Longrightarrow> ob \<le> 4294967295 \<Longrightarrow> bf_off_bits (bfh_bytes fs ob @ rest) = ob"
  by (simp add: bf_off_bits_def le_field_def bfh_bytes_def le_bytes_length le_uint_le_bytes)


lemma prepend_bfh_ok:
  "0 \<le> fs \<Longrightarrow> fs \<le> 4294967295 \<Longrightarrow> 0 \<le> ob \<Longrightarrow> ob \<le> 4294967295 \<Longrightarrow>
     prepend_bfh dib fs ob = Inr (bfh_bytes fs ob @ dib)"
  by (simp add: prepend_bfh_def struct_pack_ok bind_result_def)

lemma prepend_bfh_fail:
  "4294967295 < fs \<or> 4294967295 < ob \<Longrightarrow> prepend_bfh dib fs ob = Inl StructError_pack"
  by (simp add: prepend_bfh_def struct_pack_fail bind_result_def)

lemma returns_when_fits:
  assumes "accepted dib" and "fits_header dib"
  shows "dib_to_bmp_file_bytes dib =
           Inr (bfh_bytes (14 + int (length dib)) (spec_offset dib) @ dib)"
  using assms spec_offset_nonneg [of dib]
  by (simp add: unfold_accepted fits_header_def prepend_bfh_ok)

lemma raises_when_not_fits:
  assumes "accepted dib" and "\<not> fits_header dib"
  shows "dib_to_bmp_file_bytes dib = Inl StructError_pack"
  using assms
  by (simp add: unfold_accepted fits_header_def prepend_bfh_fail not_le)

subsection \<open>The sample buffers\<close>

lemma dib_24bit_facts:
  "accepted dib_24bit" "fits_header dib_24bit" "length dib_24bit = 40"
  "le_field dib_24bit 0 4 = 40" "le_field dib_24bit 14 2 = 24"
  "le_field dib_24bit 16 4 = 0" "le_field dib_24bit 32 4 = 0"
  by code_simp+

lemma dib_big_palette_facts:
  "accepted dib_big_palette" "\<not> fits_header dib_big_palette"
  by code_simp+

lemma dib_declared_100_facts:
  "length dib_declared_100 = 50" "le_field dib_declared_100 0 4 = 100"
  by code_simp+

lemma dib_1000_colours_facts:
  "accepted dib_1000_colours" "fits_header dib_1000_colours"
  "length dib_1000_colours = 40" "spec_offset dib_1000_colours = 4054"
  "le_field dib_1000_colours 14 2 = 8" "le_field dib_1000_colours 32 4 = 1000"
  by code_simp+

lemma dib_8bit_facts:
  "accepted dib_8bit" "fits_header dib_8bit" "length dib_8bit = 40"
  "le_field dib_8bit 0 4 = 40" "le_field dib_8bit 14 2 = 8"
  "le_field dib_8bit 16 4 = 0" "le_field dib_8bit 32 4 = 0"
  by code_simp+

lemma dib_32bit_bitfields_facts:
  "accepted dib_32bit_bitfields" "fits_header dib_32bit_bitfields"
  "length dib_32bit_bitfields = 40"
  "le_field dib_32bit_bitfields 0 4 = 40" "le_field dib_32bit_bitfields 14 2 = 32"
  "le_field dib_32bit_bitfields 16 4 = 3" "le_field dib_32bit_bitfields 32 4 = 0"
  by code_simp+

lemma dib_8bit_bitfields_facts:
  "accepted dib_8bit_bitfields" "fits_header dib_8bit_bitfields"
  "length dib_8bit_bitfields = 40"
  "le_field dib_8bit_bitfields 0 4 = 40" "le_field dib_8bit_bitfields 14 2 = 8"
  "le_field dib_8bit_bitfields 16 4 = 3" "le_field dib_8bit_bitfields 32 4 = 0"
  by code_simp+

lemma dib_big_palette_length: "length dib_big_palette = 40"
  by code_simp


text \<open>
  A buffer of more than \<open>2 ^ 32\<close> bytes is accepted, its pixel-data offset is small,
  and still the header cannot be packed: the total size does not fit its field.
\<close>

lemma dib_4gib_raises:
  "accepted dib_4gib \<and> spec_offset dib_4gib = 54
   \<and> dib_to_bmp_file_bytes dib_4gib = Inl StructError_pack"
proof -
  have len: "length dib_4gib = 4294967336"
    by (simp add: dib_4gib_def)
  have hs: "le_field dib_4gib 0 4 = 40"
    by (simp add: dib_4gib_def le_field_def le_uint_replicate_zero)
  have acc: "accepted dib_4gib"
    by (simp add: accepted_def len hs)
  have "le_field dib_4gib 14 2 = 24" "le_field dib_4gib 16 4 = 0"
    "le_field dib_4gib 32 4 = 0"
    by (simp_all add: dib_4gib_def le_field_def le_uint_replicate_zero)
  then have off: "spec_offset dib_4gib = 54"
    by (simp add: spec_offset_def hs spec_palette_size_def spec_mask_size_def)
  have "\<not> fits_header dib_4gib"
    by (simp add: fits_header_def len)
  with acc off show ?thesis
    by (simp add: raises_when_not_fits)
qed

section \<open>The claims\<close>

subsection \<open>C1: the pixel-data offset written into the file header\<close>

text \<open>
  Claim C1 as stated fails: the buffer \<open>dib_big_palette\<close> passes both validations,
  its depth is 8 and its colors-used field is \<open>2 ^ 30\<close>, so the offset is
  \<open>54 + 2 ^ 32\<close>; \<^verbatim>\<open>struct.pack\<close> refuses it and no header is written.
\<close>

theorem offset_not_written_counterexample:
  "accepted dib_big_palette \<and> dib_to_bmp_file_bytes dib_big_palette = Inl StructError_pack"
  by code_simp

text \<open>
  Claim C1, amended. For every accepted buffer whose total size \<open>14 + length\<close> and
  whose pixel-data offset are both at most \<open>2 ^ 32 - 1\<close>, the function returns a file
  and the offset written at bytes 10 to 13 of its header is 14 plus the declared
  header size plus the palette size plus the mask size, each computed by the rules of
  the specification; for a 40-byte header with depth 24, compression 0 and colors-used
  0 that offset is 54.
\<close>

theorem offset_written_when_fits:
  assumes "accepted dib" and "fits_header dib"
  shows "\<exists>out. dib_to_bmp_file_bytes dib = Inr out
           \<and> bf_off_bits out =
               14 + le_field dib 0 4
                  + spec_palette_size (le_field dib 14 2) (le_field dib 32 4)
                  + spec_mask_size (le_field dib 16 4) (le_field dib 0 4)
           \<and> (le_field dib 0 4 = 40 \<and> le_field dib 14 2 = 24
                \<and> le_field dib 16 4 = 0 \<and> le_field dib 32 4 = 0
              \<longrightarrow> bf_off_bits out = 54)"
proof -
  let ?out = "bfh_bytes (14 + int (length dib)) (spec_offset dib) @ dib"
  have ret: "dib_to_bmp_file_bytes dib = Inr ?out"
    using assms by (rule returns_when_fits)
  have off: "bf_off_bits ?out = spec_offset dib"
    using assms(2) spec_offset_nonneg [of dib]
    by (simp add: bfh_bytes_off_bits fits_header_def)
  have small: "le_field dib 0 4 = 40 \<and> le_field dib 14 2 = 24
          \<and> le_field dib 16 4 = 0 \<and> le_field dib 32 4 = 0
        \<longrightarrow> spec_offset dib = 54"
    by (simp add: spec_offset_def spec_palette_size_def spec_mask_size_def)
  have "bf_off_bits ?out =
          14 + le_field dib 0 4
             + spec_palette_size (le_field dib 14 2) (le_field dib 32 4)
             + spec_mask_size (le_field dib 16 4) (le_field dib 0 4)"
    using off by (simp add: spec_offset_def)
  moreover have "le_field dib 0 4 = 40 \<and> le_field dib 14 2 = 24
          \<and> le_field dib 16 4 = 0 \<and> le_field dib 32 4 = 0
        \<longrightarrow> bf_off_bits ?out = 54"
    using off small by metis
  ultimately show ?thesis
    using ret by blast
qed

theorem offset_written_when_fits_witness:
  "accepted dib_24bit \<and> fits_header dib_24bit
   \<and> (\<exists>out. dib_to_bmp_file_bytes dib_24bit = Inr out \<and> bf_off_bits out = 54)"
  using offset_written_when_fits [of dib_24bit]
  by (auto simp add: dib_24bit_facts)

subsection \<open>C2: the palette size\<close>

text \<open>
  Claim C2 as stated fails in its example: a 40-byte header with depth 8 and
  colors-used 0 whose compression code is 3 gets twelve bytes of masks as well, and the
  offset written is 1090, not 1078.
\<close>

theorem offset_1078_counterexample:
  "accepted dib_8bit_bitfields
   \<and> le_field dib_8bit_bitfields 0 4 = 40
   \<and> le_field dib_8bit_bitfields 14 2 = 8
   \<and> le_field dib_8bit_bitfields 32 4 = 0
   \<and> map_sum id bf_off_bits (dib_to_bmp_file_bytes dib_8bit_bitfields) = Inr 1090"
  by code_simp

text \<open>
  Claim C2, amended. For every accepted buffer the palette size the function uses is
  the one of the specification: four bytes per entry when the depth (2 bytes at offset
  14) is at most 8, the entries being the colors-used field (4 bytes at offset 32)
  when nonzero and \<open>2 ^ depth\<close> otherwise, and 0 for a larger depth; the function
  packs the offset computed with it. With a 40-byte header, depth 8, colors-used 0 and
  a compression code other than 3 and 6 there are 256 entries, the palette takes 1024
  bytes and the offset is 1078, which is what the header of the returned file holds
  whenever the total size fits its field.
\<close>

theorem palette_size_rule:
  assumes "accepted dib"
  shows "palette_size (le_field dib 14 2) (le_field dib 32 4)
           = spec_palette_size (le_field dib 14 2) (le_field dib 32 4)
       \<and> dib_to_bmp_file_bytes dib =
           prepend_bfh dib (14 + int (length dib))
             (14 + le_field dib 0 4
                 + palette_size (le_field dib 14 2) (le_field dib 32 4)
                 + masks_size (le_field dib 16 4) (le_field dib 0 4))
       \<and> (le_field dib 0 4 = 40 \<and> le_field dib 14 2 = 8 \<and> le_field dib 32 4 = 0
            \<and> le_field dib 16 4 \<noteq> 3 \<and> le_field dib 16 4 \<noteq> 6
          \<longrightarrow> palette_entries (le_field dib 14 2) (le_field dib 32 4) = 256
              \<and> palette_size (le_field dib 14 2) (le_field dib 32 4) = 1024
              \<and> dib_to_bmp_file_bytes dib = prepend_bfh dib (14 + int (length dib)) 1078
              \<and> (14 + int (length dib) \<le> 4294967295
                  \<longrightarrow> (\<exists>out. dib_to_bmp_file_bytes dib = Inr out
                          \<and> bf_off_bits out = 1078)))"
proof (intro conjI impI)
  show "palette_size (le_field dib 14 2) (le_field dib 32 4)
          = spec_palette_size (le_field dib 14 2) (le_field dib 32 4)"
    by (rule palette_size_spec)
  show code: "dib_to_bmp_file_bytes dib =
           prepend_bfh dib (14 + int (length dib))
             (14 + le_field dib 0 4
                 + palette_size (le_field dib 14 2) (le_field dib 32 4)
                 + masks_size (le_field dib 16 4) (le_field dib 0 4))"
    using assms by (rule unfold_accepted_code)
  assume eight: "le_field dib 0 4 = 40 \<and> le_field dib 14 2 = 8 \<and> le_field dib 32 4 = 0
            \<and> le_field dib 16 4 \<noteq> 3 \<and> le_field dib 16 4 \<noteq> 6"
  then show "palette_entries (le_field dib 14 2) (le_field dib 32 4) = 256"
    by (simp add: palette_entries_def)
  from eight show "palette_size (le_field dib 14 2) (le_field dib 32 4) = 1024"
    by (simp add: palette_size_def palette_entries_def)
  from eight have off: "spec_offset dib = 1078"
    by (simp add: spec_offset_def spec_palette_size_def spec_mask_size_def)
  with assms show "dib_to_bmp_file_bytes dib = prepend_bfh dib (14 + int (length dib)) 1078"
    by (simp add: unfold_accepted)
  assume "14 + int (length dib) \<le> 4294967295"
  with off have fits: "fits_header dib"
    by (simp add: fits_header_def)
  have "bf_off_bits (bfh_bytes (14 + int (length dib)) 1078 @ dib) = 1078"
    by (simp add: bfh_bytes_off_bits)
  with returns_when_fits [OF assms fits] off
  show "\<exists>out. dib_to_bmp_file_bytes dib = Inr out \<and> bf_off_bits out = 1078"
    by simp
qed

theorem palette_size_rule_witness:
  "accepted dib_8bit
   \<and> palette_size 8 0 = 1024
   \<and> (\<exists>out. dib_to_bmp_file_bytes dib_8bit = Inr out \<and> bf_off_bits out = 1078)"
proof -
  note rule = palette_size_rule [OF dib_8bit_facts(1)]
  have eight: "le_field dib_8bit 0 4 = 40 \<and> le_field dib_8bit 14 2 = 8
      \<and> le_field dib_8bit 32 4 = 0
      \<and> le_field dib_8bit 16 4 \<noteq> 3 \<and> le_field dib_8bit 16 4 \<noteq> 6"
    by (simp add: dib_8bit_facts)
  have len: "14 + int (length dib_8bit) \<le> 4294967295"
    by (simp add: dib_8bit_facts)
  from rule eight len
  have "\<exists>out. dib_to_bmp_file_bytes dib_8bit = Inr out \<and> bf_off_bits out = 1078"
    by blast
  moreover from rule eight
  have "palette_size (le_field dib_8bit 14 2) (le_field dib_8bit 32 4) = 1024"
    by blast
  then have "palette_size 8 0 = 1024"
    by (simp add: dib_8bit_facts)
  ultimately show ?thesis
    by (simp add: dib_8bit_facts(1))
qed

subsection \<open>C3: the size of the colour masks\<close>

text \<open>
  Claim C3. For every accepted buffer the mask size the function uses is 12 exactly
  when the compression code (4 bytes at offset 16) is 3 or 6 and the declared header
  size is 40, and 0 otherwise; the function packs the offset computed with it. With a
  40-byte header, compression 3 and depth 32 the mask size is 12 and the offset is 66,
  which is what the header of the returned file holds whenever the total size fits its
  field.
\<close>

theorem masks_size_rule:
  assumes "accepted dib"
  shows "(masks_size (le_field dib 16 4) (le_field dib 0 4) = 12
            \<longleftrightarrow> (le_field dib 16 4 = 3 \<or> le_field dib 16 4 = 6) \<and> le_field dib 0 4 = 40)
       \<and> (masks_size (le_field dib 16 4) (le_field dib 0 4) \<noteq> 12
            \<longrightarrow> masks_size (le_field dib 16 4) (le_field dib 0 4) = 0)
       \<and> dib_to_bmp_file_bytes dib =
           prepend_bfh dib (14 + int (length dib))
             (14 + le_field dib 0 4
                 + palette_size (le_field dib 14 2) (le_field dib 32 4)
                 + masks_size (le_field dib 16 4) (le_field dib 0 4))
       \<and> (le_field dib 0 4 = 40 \<and> le_field dib 16 4 = 3 \<and> le_field dib 14 2 = 32
          \<longrightarrow> masks_size (le_field dib 16 4) (le_field dib 0 4) = 12
              \<and> dib_to_bmp_file_bytes dib = prepend_bfh dib (14 + int (length dib)) 66
              \<and> (14 + int (length dib) \<le> 4294967295
                  \<longrightarrow> (\<exists>out. dib_to_bmp_file_bytes dib = Inr out
                          \<and> bf_off_bits out = 66)))"
proof (intro conjI impI)
  show "masks_size (le_field dib 16 4) (le_field dib 0 4) = 12
            \<longleftrightarrow> (le_field dib 16 4 = 3 \<or> le_field dib 16 4 = 6) \<and> le_field dib 0 4 = 40"
    by (simp add: masks_size_def)
  show "masks_size (le_field dib 16 4) (le_field dib 0 4) = 0"
    if "masks_size (le_field dib 16 4) (le_field dib 0 4) \<noteq> 12"
    using that by (simp add: masks_size_def split: if_splits)
  show "dib_to_bmp_file_bytes dib =
           prepend_bfh dib (14 + int (length dib))
             (14 + le_field dib 0 4
                 + palette_size (le_field dib 14 2) (le_field dib 32 4)
                 + masks_size (le_field dib 16 4) (le_field dib 0 4))"
    using assms by (rule unfold_accepted_code)
  assume bitfields: "le_field dib 0 4 = 40 \<and> le_field dib 16 4 = 3 \<and> le_field dib 14 2 = 32"
  then show "masks_size (le_field dib 16 4) (le_field dib 0 4) = 12"
    by (simp add: masks_size_def)
  from bitfields have off: "spec_offset dib = 66"
    by (simp add: spec_offset_def spec_palette_size_def spec_mask_size_def)
  with assms show "dib_to_bmp_file_bytes dib = prepend_bfh dib (14 + int (length dib)) 66"
    by (simp add: unfold_accepted)
  assume "14 + int (length dib) \<le> 4294967295"
  with off have fits: "fits_header dib"
    by (simp add: fits_header_def)
  have "bf_off_bits (bfh_bytes (14 + int (length dib)) 66 @ dib) = 66"
    by (simp add: bfh_bytes_off_bits)
  with returns_when_fits [OF assms fits] off
  show "\<exists>out. dib_to_bmp_file_bytes dib = Inr out \<and> bf_off_bits out = 66"
    by simp
qed

theorem masks_size_rule_witness:
  "accepted dib_32bit_bitfields
   \<and> masks_size 3 40 = 12
   \<and> (\<exists>out. dib_to_bmp_file_bytes dib_32bit_bitfields = Inr out \<and> bf_off_bits out = 66)"
proof -
  note rule = masks_size_rule [OF dib_32bit_bitfields_facts(1)]
  have bitfields: "le_field dib_32bit_bitfields 0 4 = 40
      \<and> le_field dib_32bit_bitfields 16 4 = 3 \<and> le_field dib_32bit_bitfields 14 2 = 32"
    by (simp add: dib_32bit_bitfields_facts)
  have len: "14 + int (length dib_32bit_bitfields) \<le> 4294967295"
    by (simp add: dib_32bit_bitfields_facts)
  from rule bitfields len
  have "\<exists>out. dib_to_bmp_file_bytes dib_32bit_bitfields = Inr out \<and> bf_off_bits out = 66"
    by blast
  moreover from rule bitfields
  have "masks_size (le_field dib_32bit_bitfields 16 4) (le_field dib_32bit_bitfields 0 4) = 12"
    by blast
  then have "masks_size 3 40 = 12"
    by (simp add: dib_32bit_bitfields_facts)
  ultimately show ?thesis
    by (simp add: dib_32bit_bitfields_facts(1))
qed

subsection \<open>C4: the output is the header followed by the input\<close>

text \<open>
  Claim C4 as stated fails: for the accepted buffer \<open>dib_big_palette\<close> the call
  ends with an exception, so there is no output at all.
\<close>

theorem no_output_counterexample:
  "accepted dib_big_palette \<and> isl (dib_to_bmp_file_bytes dib_big_palette)"
  by code_simp

text \<open>
  Claim C4, amended. For every accepted buffer whose total size and pixel-data offset
  are both at most \<open>2 ^ 32 - 1\<close>, the function returns the 14 packed header bytes
  followed by the input: the output is 14 bytes longer than the input, and from
  offset 14 on it is the input, byte for byte.
\<close>

theorem output_is_header_then_input:
  assumes "accepted dib" and "fits_header dib"
  shows "\<exists>bfh out. struct_pack_2sIHHI [66, 77] (14 + int (length dib)) 0 0 (spec_offset dib)
                     = Inr bfh
           \<and> length bfh = 14
           \<and> dib_to_bmp_file_bytes dib = Inr out
           \<and> out = bfh @ dib
           \<and> length out = 14 + length dib
           \<and> drop 14 out = dib
           \<and> (\<forall>i < length dib. out ! (14 + i) = dib ! i)"
proof -
  let ?bfh = "bfh_bytes (14 + int (length dib)) (spec_offset dib)"
  have "struct_pack_2sIHHI [66, 77] (14 + int (length dib)) 0 0 (spec_offset dib) = Inr ?bfh"
    using assms(2) spec_offset_nonneg [of dib]
    by (simp add: struct_pack_ok fits_header_def)
  moreover have "dib_to_bmp_file_bytes dib = Inr (?bfh @ dib)"
    using assms by (rule returns_when_fits)
  moreover have "length ?bfh = 14"
    by (rule bfh_bytes_length)
  ultimately show ?thesis
    by (simp add: nth_append)
qed

theorem output_is_header_then_input_witness:
  "accepted dib_24bit \<and> fits_header dib_24bit
   \<and> (\<exists>out. dib_to_bmp_file_bytes dib_24bit = Inr out
         \<and> length out = 54 \<and> drop 14 out = dib_24bit)"
  using output_is_header_then_input [of dib_24bit]
  by (auto simp add: dib_24bit_facts)

subsection \<open>C5: the layout of the file header\<close>

text \<open>
  Claim C5 as stated fails: for the accepted buffer \<open>dib_big_palette\<close> the function
  calls \<^verbatim>\<open>struct.pack\<close> with size 54 and offset \<open>2 ^ 32 + 54\<close>, and the call raises:
  no header is synthesized.
\<close>

theorem no_header_counterexample:
  "accepted dib_big_palette
   \<and> struct_pack_2sIHHI [66, 77] 54 0 0 4294967350 = Inl StructError_pack
   \<and> dib_to_bmp_file_bytes dib_big_palette = prepend_bfh dib_big_palette 54 4294967350"
  by code_simp

text \<open>
  Claim C5, amended. For every accepted buffer whose total size and pixel-data offset
  are both at most \<open>2 ^ 32 - 1\<close>, the header the function packs and puts in front
  of the input has 14 bytes: the signature \<open>[66, 77]\<close>, the total size
  \<open>14 + length\<close> in four bytes, two reserved fields of two zero bytes each, and the
  pixel-data offset in four bytes, the integers least significant byte first (read
  back little-endian, each field gives its value).
\<close>

theorem file_header_layout:
  assumes "accepted dib" and "fits_header dib"
  shows "\<exists>bfh. struct_pack_2sIHHI [66, 77] (14 + int (length dib)) 0 0 (spec_offset dib)
                 = Inr bfh
           \<and> dib_to_bmp_file_bytes dib = Inr (bfh @ dib)
           \<and> length bfh = 14
           \<and> bfh = [66, 77] @ le_bytes 4 (14 + int (length dib)) @ [0, 0] @ [0, 0]
                      @ le_bytes 4 (spec_offset dib)
           \<and> le_field bfh 2 4 = 14 + int (length dib)
           \<and> le_field bfh 6 2 = 0
           \<and> le_field bfh 8 2 = 0
           \<and> le_field bfh 10 4 = spec_offset dib"
proof -
  let ?fs = "14 + int (length dib)"
  let ?ob = "spec_offset dib"
  let ?bfh = "bfh_bytes ?fs ?ob"
  have rng: "0 \<le> ?fs" "?fs \<le> 4294967295" "0 \<le> ?ob" "?ob \<le> 4294967295"
    using assms(2) spec_offset_nonneg [of dib] by (simp_all add: fits_header_def)
  have "struct_pack_2sIHHI [66, 77] ?fs 0 0 ?ob = Inr ?bfh"
    using rng by (simp add: struct_pack_ok)
  moreover have "dib_to_bmp_file_bytes dib = Inr (?bfh @ dib)"
    using assms by (rule returns_when_fits)
  moreover have "length ?bfh = 14"
    by (rule bfh_bytes_length)
  moreover have "?bfh = [66, 77] @ le_bytes 4 ?fs @ [0, 0] @ [0, 0] @ le_bytes 4 ?ob"
    by (simp add: bfh_bytes_def)
  moreover have "le_field ?bfh 2 4 = ?fs"
    using rng bfh_bytes_size [of ?fs ?ob "[]"] by (simp add: bf_size_def)
  moreover have "le_field ?bfh 10 4 = ?ob"
    using rng bfh_bytes_off_bits [of ?ob ?fs "[]"] by (simp add: bf_off_bits_def)
  moreover have "le_field ?bfh 6 2 = 0" "le_field ?bfh 8 2 = 0"
    by (simp_all add: le_field_def bfh_bytes_def le_bytes_length)
  ultimately show ?thesis
    by blast
qed

theorem file_header_layout_witness:
  "accepted dib_24bit \<and> fits_header dib_24bit
   \<and> dib_to_bmp_file_bytes dib_24bit
       = Inr ([66, 77, 54, 0, 0, 0, 0, 0, 0, 0, 54, 0, 0, 0] @ dib_24bit)"
proof -
  have "spec_offset dib_24bit = 54" by code_simp
  moreover have "le_bytes 4 54 = [54, 0, 0, 0]" by code_simp
  ultimately show ?thesis
    using file_header_layout [of dib_24bit]
    by (auto simp add: dib_24bit_facts)
qed

subsection \<open>C6: buffers shorter than 40 bytes\<close>

text \<open>
  Claim C6. Every buffer that is empty or shorter than 40 bytes makes the function
  raise \<open>ValueError\<close> (the specification's \<open>InvalidInput\<close>) with the message of
  the first check, and no output is produced.
\<close>

theorem short_buffer_rejected:
  assumes "length dib < 40"
  shows "dib_to_bmp_file_bytes dib =
           Inl (ValueError ''Clipboard DIB data is invalid or too small.'')
         \<and> (\<forall>out. dib_to_bmp_file_bytes dib \<noteq> Inr out)"
  using assms by (simp add: too_small)

theorem short_buffer_rejected_witness:
  "length dib_short < 40
   \<and> dib_to_bmp_file_bytes dib_short =
       Inl (ValueError ''Clipboard DIB data is invalid or too small.'')
   \<and> dib_to_bmp_file_bytes [] =
       Inl (ValueError ''Clipboard DIB data is invalid or too small.'')"
  using short_buffer_rejected [of dib_short] short_buffer_rejected [of "[]"]
  by (simp add: dib_short_def)

subsection \<open>C7: a declared header size out of range\<close>

text \<open>
  Claim C7. For every buffer of at least 40 bytes whose first four bytes, read as a
  little-endian unsigned integer, declare a header size below 40 or above the length
  of the buffer, the function raises \<open>ValueError\<close> with the message of the second
  check and produces no output. The witness is a 50-byte buffer that declares 100.
\<close>

theorem bad_declared_size_rejected:
  assumes "40 \<le> length dib"
    and "le_field dib 0 4 < 40 \<or> int (length dib) < le_field dib 0 4"
  shows "dib_to_bmp_file_bytes dib = Inl (ValueError ''Invalid DIB header.'')
         \<and> (\<forall>out. dib_to_bmp_file_bytes dib \<noteq> Inr out)"
  using assms by (auto simp add: bad_header accepted_def)

theorem bad_declared_size_rejected_witness:
  "length dib_declared_100 = 50 \<and> le_field dib_declared_100 0 4 = 100
   \<and> dib_to_bmp_file_bytes dib_declared_100 = Inl (ValueError ''Invalid DIB header.'')"
  using bad_declared_size_rejected [of dib_declared_100]
  by (simp add: dib_declared_100_facts)

subsection \<open>C8: the ways the function can end\<close>

text \<open>
  Claim C8 as stated fails: on the accepted buffer \<open>dib_big_palette\<close> the function
  ends with \<^verbatim>\<open>struct.error\<close> from \<^verbatim>\<open>struct.pack\<close>, which is neither an output nor
  \<open>ValueError\<close>.
\<close>

theorem other_failure_counterexample:
  "dib_to_bmp_file_bytes dib_big_palette = Inl StructError_pack"
  by code_simp

text \<open>
  Claim C8, amended. Every buffer takes exactly one of four ways: shorter than 40
  bytes, \<open>ValueError\<close> of the first check; at least 40 bytes but with a declared
  header size out of range, \<open>ValueError\<close> of the second check; accepted with total
  size and pixel-data offset both at most \<open>2 ^ 32 - 1\<close>, the file is returned;
  accepted with one of the two larger, \<^verbatim>\<open>struct.error\<close> from \<^verbatim>\<open>struct.pack\<close>.
  The result depends on the buffer alone.
\<close>

theorem outcomes:
  "(length dib < 40
      \<and> dib_to_bmp_file_bytes dib
          = Inl (ValueError ''Clipboard DIB data is invalid or too small.''))
   \<or> (40 \<le> length dib \<and> \<not> accepted dib
      \<and> dib_to_bmp_file_bytes dib = Inl (ValueError ''Invalid DIB header.''))
   \<or> (accepted dib \<and> fits_header dib
      \<and> dib_to_bmp_file_bytes dib
          = Inr (bfh_bytes (14 + int (length dib)) (spec_offset dib) @ dib))
   \<or> (accepted dib \<and> \<not> fits_header dib
      \<and> dib_to_bmp_file_bytes dib = Inl StructError_pack)"
proof (cases "length dib < 40")
  case True
  then show ?thesis by (simp add: too_small)
next
  case long: False
  show ?thesis
  proof (cases "accepted dib")
    case False
    with long show ?thesis by (simp add: bad_header)
  next
    case True
    then show ?thesis
      by (cases "fits_header dib") (simp_all add: returns_when_fits raises_when_not_fits)
  qed
qed

theorem outcomes_witness:
  "dib_to_bmp_file_bytes dib_24bit = Inr (bfh_bytes 54 54 @ dib_24bit)
   \<and> dib_to_bmp_file_bytes dib_big_palette = Inl StructError_pack"
proof -
  have "spec_offset dib_24bit = 54" by code_simp
  then show ?thesis
    using outcomes [of dib_24bit] outcomes [of dib_big_palette]
    by (simp add: dib_24bit_facts dib_big_palette_facts dib_big_palette_length)
qed

subsection \<open>C9: the reads stay inside the buffer\<close>

text \<open>
  Claim C9. In a buffer of at least 40 bytes each of the four reads (4 bytes at 0,
  2 bytes at 14, 4 bytes at 16, 4 bytes at 32) lies inside the buffer: the read
  returns the field instead of raising, the bytes it takes are all there, and the
  function never ends with the error of a read past the end.
\<close>

theorem field_reads_in_bounds:
  assumes "40 \<le> length dib"
  shows "unpack_from_I dib 0 = Inr (le_field dib 0 4)
       \<and> unpack_from_H dib 14 = Inr (le_field dib 14 2)
       \<and> unpack_from_I dib 16 = Inr (le_field dib 16 4)
       \<and> unpack_from_I dib 32 = Inr (le_field dib 32 4)
       \<and> length (take 4 (drop 0 dib)) = 4
       \<and> length (take 2 (drop 14 dib)) = 2
       \<and> length (take 4 (drop 16 dib)) = 4
       \<and> length (take 4 (drop 32 dib)) = 4
       \<and> dib_to_bmp_file_bytes dib \<noteq> Inl StructError_unpack"
proof -
  have reads: "unpack_from_I dib 0 = Inr (le_field dib 0 4)"
    "unpack_from_H dib 14 = Inr (le_field dib 14 2)"
    "unpack_from_I dib 16 = Inr (le_field dib 16 4)"
    "unpack_from_I dib 32 = Inr (le_field dib 32 4)"
    using assms by (simp_all add: unpack_from_I_def unpack_from_H_def unpack_from_le_def)
  have inside: "length (take 4 (drop 0 dib)) = 4" "length (take 2 (drop 14 dib)) = 2"
    "length (take 4 (drop 16 dib)) = 4" "length (take 4 (drop 32 dib)) = 4"
    using assms by simp_all
  have "dib_to_bmp_file_bytes dib \<noteq> Inl StructError_unpack"
  proof (cases "accepted dib")
    case False
    with assms show ?thesis by (simp add: bad_header)
  next
    case True
    then show ?thesis
      by (cases "fits_header dib") (simp_all add: returns_when_fits raises_when_not_fits)
  qed
  with reads inside show ?thesis by simp
qed

theorem field_reads_in_bounds_witness:
  "40 \<le> length dib_24bit
   \<and> unpack_from_I dib_24bit 0 = Inr 40 \<and> unpack_from_H dib_24bit 14 = Inr 24
   \<and> unpack_from_I dib_24bit 16 = Inr 0 \<and> unpack_from_I dib_24bit 32 = Inr 0
   \<and> dib_to_bmp_file_bytes dib_24bit \<noteq> Inl StructError_unpack"
  using field_reads_in_bounds [of dib_24bit]
  by (simp add: dib_24bit_facts)

subsection \<open>C10: the offset can point past the end of the file\<close>

text \<open>
  Claim C10. The colors-used field is not checked against the length of the buffer:
  there is an accepted buffer with a depth of at most 8 bits and a nonzero colors-used
  field for which the function returns a file whose pixel-data offset is larger than
  its declared size \<open>14 + length\<close>, which is also the real length of the file.
\<close>

theorem offset_may_pass_end_of_file:
  "\<exists>dib out. accepted dib \<and> le_field dib 14 2 \<le> 8 \<and> le_field dib 32 4 \<noteq> 0
     \<and> dib_to_bmp_file_bytes dib = Inr out
     \<and> bf_size out = 14 + int (length dib)
     \<and> int (length out) = bf_size out
     \<and> bf_size out < bf_off_bits out"
proof -
  let ?dib = dib_1000_colours
  let ?out = "bfh_bytes 54 4054 @ ?dib"
  have "dib_to_bmp_file_bytes ?dib = Inr ?out"
    using returns_when_fits [of ?dib] by (simp add: dib_1000_colours_facts)
  moreover have "bf_size ?out = 54" "bf_off_bits ?out = 4054"
    by (simp_all add: bfh_bytes_size bfh_bytes_off_bits)
  moreover have "length ?out = 54"
    by (simp add: bfh_bytes_length dib_1000_colours_facts)
  ultimately have "accepted ?dib \<and> le_field ?dib 14 2 \<le> 8 \<and> le_field ?dib 32 4 \<noteq> 0
     \<and> dib_to_bmp_file_bytes ?dib = Inr ?out
     \<and> bf_size ?out = 14 + int (length ?dib)
     \<and> int (length ?out) = bf_size ?out
     \<and> bf_size ?out < bf_off_bits ?out"
    by (simp add: dib_1000_colours_facts)
  then show ?thesis by blast
qed

end
